theory Spec2Isabelle
  imports Complex_Main
begin

section \<open>Python and numpy primitives used by the overlay\<close>

text \<open>
  The sampler keeps seven numpy arrays of float64. They are modelled as lists of
  \<^typ>\<open>real\<close>: the rounding of float64 addition and multiplication is idealised,
  every other step (indexing, rolling, comparison, control flow) is as in the source.
  Every reading of the sample ticks below is a number float64 represents exactly, and so
  is every value computed from them.
\<close>

datatype error = IndexError | ValueError

definition and_then :: "error + 'a \<Rightarrow> ('a \<Rightarrow> error + 'b) \<Rightarrow> error + 'b" where
  "and_then m f = (case m of Inl e \<Rightarrow> Inl e | Inr v \<Rightarrow> f v)"

text \<open>
  Index resolution of a one-dimensional array of size \<open>n\<close>: a non-negative index must be
  below \<open>n\<close>, a negative index \<open>i\<close> stands for \<open>n + i\<close> and must not be below \<open>-n\<close>;
  anything else raises IndexError.
\<close>

definition resolve_index :: "nat \<Rightarrow> int \<Rightarrow> error + nat" where
  "resolve_index n i =
     (if 0 \<le> i then (if i < int n then Inr (nat i) else Inl IndexError)
      else (if - int n \<le> i then Inr (nat (int n + i)) else Inl IndexError))"

definition getitem :: "'a list \<Rightarrow> int \<Rightarrow> error + 'a" where
  "getitem xs i = and_then (resolve_index (length xs) i) (\<lambda>j. Inr (xs ! j))"

definition setitem :: "'a list \<Rightarrow> int \<Rightarrow> 'a \<Rightarrow> error + 'a list" where
  "setitem xs i v = and_then (resolve_index (length xs) i) (\<lambda>j. Inr (xs[j := v]))"

text \<open>\<open>np.zeros(n)\<close>: an array of \<open>n\<close> zeros.\<close>

definition zeros :: "nat \<Rightarrow> real list" where
  "zeros n = replicate n 0"

text \<open>
  \<open>np.roll(a, shift)\<close> on a one-dimensional array: a fresh array in which every element
  has moved \<open>shift\<close> places to the right, wrapping around; a negative shift moves to the
  left. The empty array is returned as it is.
\<close>

definition roll :: "'a list \<Rightarrow> int \<Rightarrow> 'a list" where
  "roll a shift =
     (if a = [] then [] else rotate (nat ((- shift) mod int (length a))) a)"

section \<open>The telemetry source\<close>

text \<open>
  What one tick reads from the SDK handle \<open>self.ir\<close>: the connection flag
  \<open>is_connected\<close> and the values under the keys \<open>Throttle\<close>, \<open>Brake\<close>, \<open>Steer\<close>,
  \<open>Speed\<close>, \<open>Gear\<close> and \<open>SessionTime\<close>. The gear is an integer; storing it
  into a float array converts it.
\<close>

record irsdk =
  is_connected :: bool
  Throttle :: real
  Brake :: real
  Steer :: real
  Speed :: real
  Gear :: int
  SessionTime :: real

section \<open>The sampler: class IRacingTelemetry\<close>

record IRacingTelemetry =
  history_length :: nat
  throttle :: "real list"
  brake :: "real list"
  steer :: "real list"
  speed :: "real list"
  gear :: "real list"
  distance :: "real list"
  time :: "real list"

definition reset_data :: "IRacingTelemetry \<Rightarrow> IRacingTelemetry" where
  "reset_data self =
     self\<lparr>throttle := zeros (history_length self),
          brake := zeros (history_length self),
          steer := zeros (history_length self),
          speed := zeros (history_length self),
          gear := zeros (history_length self),
          distance := zeros (history_length self),
          time := zeros (history_length self)\<rparr>"

text \<open>
  The constructor sets \<open>history_length = 200\<close> and calls \<open>reset_data\<close>, which creates the
  seven arrays (the empty lists below are placeholders that \<open>reset_data\<close> overwrites).
\<close>

definition IRacingTelemetry_init :: IRacingTelemetry where
  "IRacingTelemetry_init =
     reset_data \<lparr>history_length = 200, throttle = [], brake = [], steer = [],
                 speed = [], gear = [], distance = [], time = []\<rparr>"

definition update :: "irsdk \<Rightarrow> IRacingTelemetry \<Rightarrow> error + IRacingTelemetry" where
  "update ir self =
     (if \<not> is_connected ir then Inr (reset_data self)
      else
        let self = self\<lparr>throttle := roll (throttle self) (- 1)\<rparr>;
            self = self\<lparr>brake := roll (brake self) (- 1)\<rparr>;
            self = self\<lparr>steer := roll (steer self) (- 1)\<rparr>;
            self = self\<lparr>speed := roll (speed self) (- 1)\<rparr>;
            self = self\<lparr>gear := roll (gear self) (- 1)\<rparr>;
            self = self\<lparr>distance := roll (distance self) (- 1)\<rparr>;
            self = self\<lparr>time := roll (time self) (- 1)\<rparr>
        in
        and_then (setitem (throttle self) (- 1) (Throttle ir)) (\<lambda>a.
        let self = self\<lparr>throttle := a\<rparr> in
        and_then (setitem (brake self) (- 1) (Brake ir)) (\<lambda>a.
        let self = self\<lparr>brake := a\<rparr> in
        and_then (setitem (steer self) (- 1) (Steer ir)) (\<lambda>a.
        let self = self\<lparr>steer := a\<rparr> in
        and_then (setitem (speed self) (- 1) (Speed ir)) (\<lambda>a.
        let self = self\<lparr>speed := a\<rparr> in
        and_then (setitem (gear self) (- 1) (of_int (Gear ir))) (\<lambda>a.
        let self = self\<lparr>gear := a\<rparr> in
        and_then (setitem (time self) (- 1) (SessionTime ir)) (\<lambda>a.
        let self = self\<lparr>time := a\<rparr> in
        if length (time self) > 1 then
          and_then (getitem (time self) (- 1)) (\<lambda>t1.
          and_then (getitem (time self) (- 2)) (\<lambda>t2.
          let time_delta = t1 - t2 in
          and_then (getitem (speed self) (- 1)) (\<lambda>s.
          if s > 0 then
            and_then (getitem (distance self) (- 2)) (\<lambda>d.
            and_then (setitem (distance self) (- 1) (d + s * time_delta)) (\<lambda>a.
            Inr (self\<lparr>distance := a\<rparr>)))
          else
            and_then (getitem (distance self) (- 2)) (\<lambda>d.
            and_then (setitem (distance self) (- 1) d) (\<lambda>a.
            Inr (self\<lparr>distance := a\<rparr>))))))
        else Inr self)))))))"

text \<open>
  The timer calls \<open>update\<close> once per tick for the lifetime of the process; \<open>run\<close> is the
  sampler driven through the readings of a finite sequence of ticks. An exception ends
  the run.
\<close>

fun run :: "irsdk list \<Rightarrow> IRacingTelemetry \<Rightarrow> error + IRacingTelemetry" where
  "run [] self = Inr self"
| "run (ir # irs) self = and_then (update ir self) (run irs)"

section \<open>The renderer: ApplicationWindow.update_plot\<close>

text \<open>
  Of the plotting library only what \<open>update_plot\<close> uses is modelled: an axes object holds
  the curves drawn so far, each with its x values, its y values and its colour, and the
  limits of the x axis. \<open>ax.clear()\<close> removes the curves and restores the default
  limits, \<open>ax.plot(x, y)\<close> adds a curve and raises ValueError when \<open>x\<close> and \<open>y\<close> differ
  in length, \<open>ax.set_xlim(left, right)\<close> sets the limits.
\<close>

type_synonym curve = "real list \<times> real list \<times> string"

record axes =
  ax_lines :: "curve list"
  ax_xlim :: "real \<times> real"

definition clear :: "axes \<Rightarrow> axes" where
  "clear a = a\<lparr>ax_lines := [], ax_xlim := (0, 1)\<rparr>"

definition plot :: "axes \<Rightarrow> real list \<Rightarrow> real list \<Rightarrow> string \<Rightarrow> error + axes" where
  "plot a x y color =
     (if length x \<noteq> length y then Inl ValueError
      else Inr (a\<lparr>ax_lines := ax_lines a @ [(x, y, color)]\<rparr>))"

definition set_xlim :: "axes \<Rightarrow> real \<Rightarrow> real \<Rightarrow> axes" where
  "set_xlim a left right = a\<lparr>ax_xlim := (left, right)\<rparr>"

text \<open>
  The three normalisations of \<open>update_plot\<close>, each an arithmetic expression on a whole
  array: \<open>(steer + 1) * 0.5\<close>, \<open>speed / 83.33\<close> and \<open>gear / 6.0\<close>.
\<close>

definition steer_normalized :: "real list \<Rightarrow> real list" where
  "steer_normalized xs = map (\<lambda>v. (v + 1) * 0.5) xs"

definition speed_normalized :: "real list \<Rightarrow> real list" where
  "speed_normalized xs = map (\<lambda>v. v / 83.33) xs"

definition gear_normalized :: "real list \<Rightarrow> real list" where
  "gear_normalized xs = map (\<lambda>v. v / 6.0) xs"

record ApplicationWindow =
  telemetry :: IRacingTelemetry
  throttle_checkbox :: bool
  brake_checkbox :: bool
  steer_checkbox :: bool
  speed_checkbox :: bool
  gear_checkbox :: bool
  ax :: axes

definition update_plot :: "irsdk \<Rightarrow> ApplicationWindow \<Rightarrow> error + ApplicationWindow" where
  "update_plot ir self =
     and_then (update ir (telemetry self)) (\<lambda>t.
     let self = self\<lparr>telemetry := t\<rparr>;
         self = self\<lparr>ax := clear (ax self)\<rparr>
     in
     and_then
       (if throttle_checkbox self
        then plot (ax self) (distance (telemetry self)) (throttle (telemetry self)) ''lime''
        else Inr (ax self)) (\<lambda>a.
     let self = self\<lparr>ax := a\<rparr> in
     and_then
       (if brake_checkbox self
        then plot (ax self) (distance (telemetry self)) (brake (telemetry self)) ''red''
        else Inr (ax self)) (\<lambda>a.
     let self = self\<lparr>ax := a\<rparr> in
     and_then
       (if steer_checkbox self
        then plot (ax self) (distance (telemetry self))
               (steer_normalized (steer (telemetry self))) ''cyan''
        else Inr (ax self)) (\<lambda>a.
     let self = self\<lparr>ax := a\<rparr> in
     and_then
       (if speed_checkbox self
        then plot (ax self) (distance (telemetry self))
               (speed_normalized (speed (telemetry self))) ''yellow''
        else Inr (ax self)) (\<lambda>a.
     let self = self\<lparr>ax := a\<rparr> in
     and_then
       (if gear_checkbox self
        then plot (ax self) (distance (telemetry self))
               (gear_normalized (gear (telemetry self))) ''magenta''
        else Inr (ax self)) (\<lambda>a.
     let self = self\<lparr>ax := a\<rparr> in
     and_then (getitem (distance (telemetry self)) (- 1)) (\<lambda>d.
     if d > 150
     then Inr (self\<lparr>ax := set_xlim (ax self) (d - 150) (d + 150)\<rparr>)
     else Inr (self\<lparr>ax := set_xlim (ax self) 0 300\<rparr>))))))))"

section \<open>Properties of states and runs\<close>

text \<open>
  The shape every state of the sampler has: the capacity is 200 and each of the seven
  windows holds 200 samples.
\<close>

definition window_invariant :: "IRacingTelemetry \<Rightarrow> bool" where
  "window_invariant self \<longleftrightarrow>
     history_length self = 200 \<and>
     length (throttle self) = 200 \<and> length (brake self) = 200 \<and>
     length (steer self) = 200 \<and> length (speed self) = 200 \<and>
     length (gear self) = 200 \<and> length (distance self) = 200 \<and>
     length (time self) = 200"



section \<open>Sample states and readings\<close>

text \<open>
  A state with full windows: constant inputs at 8 m/s, neighbouring samples an eighth of
  a second and one metre apart.
\<close>

definition cruising :: IRacingTelemetry where
  "cruising =
     \<lparr>history_length = 200,
      throttle = replicate 200 1,
      brake = replicate 200 0,
      steer = replicate 200 (- 1 / 4),
      speed = replicate 200 8,
      gear = replicate 200 3,
      distance = map real [0 ..< 200],
      time = map (\<lambda>i. real i / 8) [0 ..< 200]\<rparr>"

definition cruise_tick :: irsdk where
  "cruise_tick =
     \<lparr>is_connected = True, Throttle = 1, Brake = 0, Steer = - 1 / 4, Speed = 8,
      Gear = 3, SessionTime = 25\<rparr>"

definition reverse_tick :: irsdk where
  "reverse_tick =
     \<lparr>is_connected = True, Throttle = 1 / 2, Brake = 0, Steer = 0, Speed = - 2,
      Gear = - 1, SessionTime = 25\<rparr>"

definition repeated_tick :: irsdk where
  "repeated_tick =
     \<lparr>is_connected = True, Throttle = 1, Brake = 0, Steer = - 1 / 4, Speed = 8,
      Gear = 3, SessionTime = 199 / 8\<rparr>"

definition offline_tick :: irsdk where
  "offline_tick =
     \<lparr>is_connected = False, Throttle = 0, Brake = 0, Steer = 0, Speed = 0,
      Gear = 0, SessionTime = 0\<rparr>"

text \<open>Joining a session that has been running for 100 seconds, at 10 m/s.\<close>

definition join_tick :: irsdk where
  "join_tick =
     \<lparr>is_connected = True, Throttle = 1, Brake = 0, Steer = 0, Speed = 10,
      Gear = 3, SessionTime = 100\<rparr>"






definition all_visible :: ApplicationWindow where
  "all_visible =
     \<lparr>telemetry = cruising, throttle_checkbox = True, brake_checkbox = True,
      steer_checkbox = True, speed_checkbox = True, gear_checkbox = True,
      ax = \<lparr>ax_lines = [], ax_xlim = (0, 1)\<rparr>\<rparr>"

definition none_visible :: ApplicationWindow where
  "none_visible =
     \<lparr>telemetry = cruising, throttle_checkbox = False, brake_checkbox = False,
      steer_checkbox = False, speed_checkbox = False, gear_checkbox = False,
      ax = \<lparr>ax_lines = [], ax_xlim = (0, 1)\<rparr>\<rparr>"

section \<open>Auxiliary facts\<close>

subsection \<open>Indexing and rolling\<close>

lemma roll_minus_one: "roll a (- 1) = rotate1 a"
proof (cases a)
  case Nil
  then show ?thesis by (simp add: roll_def)
next
  case (Cons x xs)
  show ?thesis
  proof (cases xs)
    case Nil
    with Cons show ?thesis by (simp add: roll_def)
  next
    case (Cons y ys)
    with \<open>a = x # xs\<close> have "(1::int) mod int (length a) = 1" by simp
    with \<open>a = x # xs\<close> show ?thesis by (simp add: roll_def)
  qed
qed

lemma rotate1_tl: "a \<noteq> [] \<Longrightarrow> rotate1 a = tl a @ [hd a]"
  by (cases a) simp_all

lemma setitem_last: "xs \<noteq> [] \<Longrightarrow> setitem xs (- 1) v = Inr (butlast xs @ [v])"
  by (cases xs rule: rev_cases)
    (simp_all add: setitem_def resolve_index_def and_then_def nat_add_distrib)

lemma getitem_last: "xs \<noteq> [] \<Longrightarrow> getitem xs (- 1) = Inr (last xs)"
  by (cases xs rule: rev_cases)
    (simp_all add: getitem_def resolve_index_def and_then_def)

lemma getitem_last2: "getitem (xs @ [x, y]) (- 2) = Inr x"
  by (simp add: getitem_def resolve_index_def and_then_def nth_append)

lemma roll_set: "a \<noteq> [] \<Longrightarrow> setitem (roll a (- 1)) (- 1) v = Inr (tl a @ [v])"
  by (cases a) (simp_all add: roll_minus_one setitem_last)

lemma getitem_last2_tl:
  assumes len: "2 \<le> length xs"
  shows "getitem (tl xs @ [v]) (- 2) = Inr (last xs)"
proof -
  from len have ne: "tl xs \<noteq> []" by (cases xs) auto
  then obtain ys y where tl: "tl xs = ys @ [y]" by (cases "tl xs" rule: rev_cases) auto
  have "last xs = last (tl xs)" using ne by (cases xs) auto
  with tl have "last xs = y" by simp
  with tl getitem_last2 [of ys y v] show ?thesis by simp
qed

subsection \<open>One tick of the sampler\<close>

lemma window_invariant_nonempty:
  assumes "window_invariant self"
  shows "throttle self \<noteq> []" "brake self \<noteq> []" "steer self \<noteq> []" "speed self \<noteq> []"
    "gear self \<noteq> []" "distance self \<noteq> []" "time self \<noteq> []"
  using assms by (auto simp: window_invariant_def)

lemma update_disconnected: "\<not> is_connected ir \<Longrightarrow> update ir self = Inr (reset_data self)"
  by (simp add: update_def)

lemma update_connected:
  assumes con: "is_connected ir" and inv: "window_invariant self"
  shows "update ir self =
     Inr (self\<lparr>throttle := tl (throttle self) @ [Throttle ir],
               brake := tl (brake self) @ [Brake ir],
               steer := tl (steer self) @ [Steer ir],
               speed := tl (speed self) @ [Speed ir],
               gear := tl (gear self) @ [of_int (Gear ir)],
               distance := tl (distance self) @
                 [if Speed ir > 0
                  then last (distance self) + Speed ir * (SessionTime ir - last (time self))
                  else last (distance self)],
               time := tl (time self) @ [SessionTime ir]\<rparr>)"
proof -
  note ne = window_invariant_nonempty [OF inv]
  from inv have l2: "2 \<le> length (time self)" "2 \<le> length (distance self)"
    by (auto simp: window_invariant_def)
  have d2: "getitem (roll (distance self) (- 1)) (- 2) = Inr (last (distance self))"
    using getitem_last2_tl [OF l2(2), of "hd (distance self)"] ne(6)
    by (simp add: roll_minus_one rotate1_tl)
  have t2: "getitem (tl (time self) @ [SessionTime ir]) (- 2) = Inr (last (time self))"
    by (rule getitem_last2_tl [OF l2(1)])
  have tlen: "1 < length (tl (time self) @ [SessionTime ir])" using l2(1) by simp
  show ?thesis
    unfolding update_def Let_def using con tlen
    by (simp add: roll_set ne d2 t2 getitem_last and_then_def)
qed

lemma reset_data_invariant: "history_length self = 200 \<Longrightarrow> window_invariant (reset_data self)"
  by (simp add: reset_data_def window_invariant_def zeros_def)

lemma init_invariant: "window_invariant IRacingTelemetry_init"
  unfolding IRacingTelemetry_init_def by (rule reset_data_invariant) simp

lemma update_invariant:
  assumes inv: "window_invariant self"
  shows "\<exists>t. update ir self = Inr t \<and> window_invariant t"
proof (cases "is_connected ir")
  case True
  from inv have "window_invariant
     (self\<lparr>throttle := tl (throttle self) @ [Throttle ir],
               brake := tl (brake self) @ [Brake ir],
               steer := tl (steer self) @ [Steer ir],
               speed := tl (speed self) @ [Speed ir],
               gear := tl (gear self) @ [of_int (Gear ir)],
               distance := tl (distance self) @
                 [if Speed ir > 0
                  then last (distance self) + Speed ir * (SessionTime ir - last (time self))
                  else last (distance self)],
               time := tl (time self) @ [SessionTime ir]\<rparr>)"
    by (simp add: window_invariant_def)
  with update_connected [OF True inv] show ?thesis by simp
next
  case False
  from inv have "history_length self = 200" by (simp add: window_invariant_def)
  with False show ?thesis by (simp add: update_disconnected reset_data_invariant)
qed

lemma run_invariant:
  "window_invariant self \<Longrightarrow> \<exists>t. run irs self = Inr t \<and> window_invariant t"
proof (induction irs arbitrary: self)
  case Nil
  then show ?case by simp
next
  case (Cons ir irs)
  from update_invariant [OF Cons.prems, of ir]
  obtain t where t: "update ir self = Inr t" "window_invariant t" by blast
  from Cons.IH [OF t(2)] t(1) show ?case by (simp add: and_then_def)
qed

lemma cruising_invariant: "window_invariant cruising"
  by (simp add: cruising_def window_invariant_def)

lemma cruise_tick_connected: "is_connected cruise_tick"
  by (simp add: cruise_tick_def)

lemma last_distance_cruising: "last (distance cruising) = 199"
  by (simp add: cruising_def last_map)

lemma last_time_cruising: "last (time cruising) = 199 / 8"
  by (simp add: cruising_def last_map)

lemma previous_sample:
  fixes xs :: "real list"
  assumes "length xs = 200"
  shows "(tl xs @ [v]) ! 198 = last xs"
proof -
  from assms have ne: "xs \<noteq> []" by auto
  from assms have "(tl xs @ [v]) ! 198 = tl xs ! 198" by (simp add: nth_append)
  also from assms have "\<dots> = xs ! 199" by (simp add: nth_tl)
  also from assms ne have "\<dots> = last xs" by (simp add: last_conv_nth)
  finally show ?thesis .
qed

subsection \<open>One tick of the renderer\<close>

lemma update_plot_result:
  assumes inv: "window_invariant t" and upd: "update ir (telemetry self) = Inr t"
  shows "update_plot ir self =
     Inr (self\<lparr>telemetry := t,
       ax := (ax self)\<lparr>
         ax_lines :=
           (if throttle_checkbox self then [(distance t, throttle t, ''lime'')] else []) @
           (if brake_checkbox self then [(distance t, brake t, ''red'')] else []) @
           (if steer_checkbox self
            then [(distance t, steer_normalized (steer t), ''cyan'')] else []) @
           (if speed_checkbox self
            then [(distance t, speed_normalized (speed t), ''yellow'')] else []) @
           (if gear_checkbox self
            then [(distance t, gear_normalized (gear t), ''magenta'')] else []),
         ax_xlim :=
           (if last (distance t) > 150
            then (last (distance t) - 150, last (distance t) + 150)
            else (0, 300))\<rparr>\<rparr>)"
proof -
  from inv have len: "length (throttle t) = length (distance t)"
    "length (brake t) = length (distance t)" "length (steer t) = length (distance t)"
    "length (speed t) = length (distance t)" "length (gear t) = length (distance t)"
    by (simp_all add: window_invariant_def)
  have last: "getitem (distance t) (- 1) = Inr (last (distance t))"
    by (rule getitem_last) (rule window_invariant_nonempty(6) [OF inv])
  show ?thesis
    unfolding update_plot_def Let_def
    by (simp add: upd and_then_def plot_def clear_def set_xlim_def len last
        steer_normalized_def speed_normalized_def gear_normalized_def)
qed

lemma all_visible_invariant: "window_invariant (telemetry all_visible)"
  by (simp add: all_visible_def cruising_invariant)

lemma update_cruise_tick_cruising:
  "update cruise_tick cruising =
     Inr (cruising\<lparr>throttle := tl (throttle cruising) @ [1],
            brake := tl (brake cruising) @ [0],
            steer := tl (steer cruising) @ [- 1 / 4],
            speed := tl (speed cruising) @ [8],
            gear := tl (gear cruising) @ [3],
            distance := tl (distance cruising) @ [200],
            time := tl (time cruising) @ [25]\<rparr>)"
  by (simp add: update_connected [OF cruise_tick_connected cruising_invariant]
      last_distance_cruising last_time_cruising)
    (simp add: cruise_tick_def)

lemma last_distance_after_cruise:
  assumes "update cruise_tick cruising = Inr t"
  shows "last (distance t) = 200"
  using assms by (auto simp: update_cruise_tick_cruising)

subsection \<open>Distance along a run\<close>


lemma nth_tl_snoc_last:
  assumes "length xs = Suc n"
  shows "(tl xs @ [v]) ! n = v"
  using assms by (simp add: nth_append)







section \<open>The claims\<close>

text \<open>
  C1. If the telemetry source reports disconnected at a tick, then after \<open>update\<close> all
  seven rolling windows (throttle, brake, steer, speed, gear, distance, time) are 200
  zeros, whatever they held before.
\<close>

theorem reset_on_disconnect:
  assumes "history_length self = 200" and "\<not> is_connected ir"
  shows "\<exists>t. update ir self = Inr t \<and>
     throttle t = replicate 200 0 \<and> brake t = replicate 200 0 \<and>
     steer t = replicate 200 0 \<and> speed t = replicate 200 0 \<and>
     gear t = replicate 200 0 \<and> distance t = replicate 200 0 \<and>
     time t = replicate 200 0"
  using assms by (simp add: update_def reset_data_def zeros_def)

theorem reset_on_disconnect_witness:
  "history_length cruising = 200 \<and> \<not> is_connected offline_tick \<and>
   throttle cruising \<noteq> replicate 200 0 \<and>
   (\<exists>t. update offline_tick cruising = Inr t \<and>
     throttle t = replicate 200 0 \<and> brake t = replicate 200 0 \<and>
     steer t = replicate 200 0 \<and> speed t = replicate 200 0 \<and>
     gear t = replicate 200 0 \<and> distance t = replicate 200 0 \<and>
     time t = replicate 200 0)"
proof -
  have h: "history_length cruising = 200" by (simp add: cruising_def)
  have c: "\<not> is_connected offline_tick" by (simp add: offline_tick_def)
  have n: "throttle cruising \<noteq> replicate 200 0" by (simp add: cruising_def)
  from h c n reset_on_disconnect [OF h c] show ?thesis by blast
qed

text \<open>
  C2. On every connected tick, \<open>update\<close> turns each of the seven rolling windows into
  the old window without its element at index 0 and with one new element at the end;
  the lengths do not change.
\<close>

theorem update_fifo:
  assumes "window_invariant self" and "is_connected ir"
  shows "\<exists>t d. update ir self = Inr t \<and>
     throttle t = tl (throttle self) @ [Throttle ir] \<and>
     brake t = tl (brake self) @ [Brake ir] \<and>
     steer t = tl (steer self) @ [Steer ir] \<and>
     speed t = tl (speed self) @ [Speed ir] \<and>
     gear t = tl (gear self) @ [of_int (Gear ir)] \<and>
     distance t = tl (distance self) @ [d] \<and>
     time t = tl (time self) @ [SessionTime ir] \<and>
     length (throttle t) = length (throttle self) \<and>
     length (brake t) = length (brake self) \<and>
     length (steer t) = length (steer self) \<and>
     length (speed t) = length (speed self) \<and>
     length (gear t) = length (gear self) \<and>
     length (distance t) = length (distance self) \<and>
     length (time t) = length (time self)"
  using assms window_invariant_nonempty [OF assms(1)]
  by (simp add: update_connected)

theorem update_fifo_witness:
  "window_invariant cruising \<and> is_connected cruise_tick \<and>
   (\<exists>t d. update cruise_tick cruising = Inr t \<and>
     throttle t = tl (throttle cruising) @ [1] \<and>
     brake t = tl (brake cruising) @ [0] \<and>
     steer t = tl (steer cruising) @ [- 1 / 4] \<and>
     speed t = tl (speed cruising) @ [8] \<and>
     gear t = tl (gear cruising) @ [3] \<and>
     distance t = tl (distance cruising) @ [d] \<and>
     time t = tl (time cruising) @ [25] \<and>
     length (throttle t) = 200 \<and> length (brake t) = 200 \<and> length (steer t) = 200 \<and>
     length (speed t) = 200 \<and> length (gear t) = 200 \<and> length (distance t) = 200 \<and>
     length (time t) = 200)"
proof -
  from update_fifo [OF cruising_invariant cruise_tick_connected]
  obtain t d where "update cruise_tick cruising = Inr t"
    "throttle t = tl (throttle cruising) @ [Throttle cruise_tick]"
    "brake t = tl (brake cruising) @ [Brake cruise_tick]"
    "steer t = tl (steer cruising) @ [Steer cruise_tick]"
    "speed t = tl (speed cruising) @ [Speed cruise_tick]"
    "gear t = tl (gear cruising) @ [of_int (Gear cruise_tick)]"
    "distance t = tl (distance cruising) @ [d]"
    "time t = tl (time cruising) @ [SessionTime cruise_tick]"
    "length (throttle t) = length (throttle cruising)"
    "length (brake t) = length (brake cruising)"
    "length (steer t) = length (steer cruising)"
    "length (speed t) = length (speed cruising)"
    "length (gear t) = length (gear cruising)"
    "length (distance t) = length (distance cruising)"
    "length (time t) = length (time cruising)"
    by blast
  moreover have "Throttle cruise_tick = 1" "Brake cruise_tick = 0" "Steer cruise_tick = - 1 / 4"
    "Speed cruise_tick = 8" "real_of_int (Gear cruise_tick) = 3" "SessionTime cruise_tick = 25"
    by (simp_all add: cruise_tick_def)
  moreover have "length (throttle cruising) = 200" "length (brake cruising) = 200"
    "length (steer cruising) = 200" "length (speed cruising) = 200"
    "length (gear cruising) = 200" "length (distance cruising) = 200"
    "length (time cruising) = 200"
    using cruising_invariant by (simp_all add: window_invariant_def)
  ultimately show ?thesis
    using cruising_invariant cruise_tick_connected by auto
qed

text \<open>
  C3. At every tick, that is after initialisation and after any number of calls of
  \<open>update\<close>, connected or not, each of the seven rolling windows has length 200; no call
  raises.
\<close>

theorem window_length_invariant:
  "\<exists>t. run irs IRacingTelemetry_init = Inr t \<and>
     length (throttle t) = 200 \<and> length (brake t) = 200 \<and> length (steer t) = 200 \<and>
     length (speed t) = 200 \<and> length (gear t) = 200 \<and> length (distance t) = 200 \<and>
     length (time t) = 200"
  using run_invariant [OF init_invariant, of irs] by (auto simp: window_invariant_def)

theorem window_length_invariant_witness:
  "\<exists>t. run [cruise_tick, offline_tick, join_tick] IRacingTelemetry_init = Inr t \<and>
     length (throttle t) = 200 \<and> length (brake t) = 200 \<and> length (steer t) = 200 \<and>
     length (speed t) = 200 \<and> length (gear t) = 200 \<and> length (distance t) = 200 \<and>
     length (time t) = 200"
  by (rule window_length_invariant)

text \<open>
  C4. On a connected update, with the time delta being the session time read minus the
  time stored for the previous sample: when the speed read is positive, the distance
  appended is the previous distance plus speed times the time delta; when the speed read
  is zero or negative, the distance appended is the previous distance. The previous
  sample is the one that sits at index 198 after the update.
\<close>

theorem distance_step:
  assumes "window_invariant self" and "is_connected ir"
  shows "\<exists>t. update ir self = Inr t \<and>
     distance t ! 198 = last (distance self) \<and>
     time t ! 198 = last (time self) \<and>
     last (time t) = SessionTime ir \<and>
     last (speed t) = Speed ir \<and>
     (0 < Speed ir \<longrightarrow>
        last (distance t) =
          last (distance self) + Speed ir * (SessionTime ir - last (time self))) \<and>
     (Speed ir \<le> 0 \<longrightarrow> last (distance t) = last (distance self))"
proof -
  from assms(1) have len: "length (distance self) = 200" "length (time self) = 200"
    by (simp_all add: window_invariant_def)
  show ?thesis
    using assms(2) previous_sample [OF len(1)] previous_sample [OF len(2)]
    by (simp add: update_connected [OF assms(2) assms(1)])
qed

theorem distance_step_witness:
  "window_invariant cruising \<and> is_connected cruise_tick \<and> is_connected reverse_tick \<and>
   0 < Speed cruise_tick \<and> Speed reverse_tick \<le> 0 \<and>
   last (distance cruising) = 199 \<and>
   (\<exists>t. update cruise_tick cruising = Inr t \<and> last (distance t) = 200) \<and>
   (\<exists>t. update reverse_tick cruising = Inr t \<and> last (distance t) = 199)"
proof -
  have r: "is_connected reverse_tick" by (simp add: reverse_tick_def)
  have s1: "0 < Speed cruise_tick" "Speed cruise_tick = 8" "SessionTime cruise_tick = 25"
    by (simp_all add: cruise_tick_def)
  have s2: "Speed reverse_tick \<le> 0" by (simp add: reverse_tick_def)
  from distance_step [OF cruising_invariant cruise_tick_connected] s1
  have a: "\<exists>t. update cruise_tick cruising = Inr t \<and> last (distance t) = 200"
    by (auto simp: last_distance_cruising last_time_cruising)
  from distance_step [OF cruising_invariant r] s2
  have b: "\<exists>t. update reverse_tick cruising = Inr t \<and> last (distance t) = 199"
    by (auto simp: last_distance_cruising)
  from a b r s1(1) s2 cruising_invariant cruise_tick_connected last_distance_cruising
  show ?thesis by blast
qed




text \<open>
  C6 states that the first connected update after startup or after a reset appends the
  distance 0. The code appends the speed read times the session time read when the speed
  is positive, since the time of the previous sample is the 0 the window was filled with:
  joining at 10 m/s a session that has run for 100 seconds appends 1000.
\<close>

theorem first_sample_distance:
  "run [join_tick] IRacingTelemetry_init =
     Inr (IRacingTelemetry_init
       \<lparr>throttle := replicate 199 0 @ [1], brake := replicate 199 0 @ [0],
        steer := replicate 199 0 @ [0], speed := replicate 199 0 @ [10],
        gear := replicate 199 0 @ [3], distance := replicate 199 0 @ [1000],
        time := replicate 199 0 @ [100]\<rparr>)"
proof -
  have c: "is_connected join_tick" by (simp add: join_tick_def)
  have z: "tl (zeros 200) = replicate 199 0" "last (zeros 200) = 0"
    by (simp_all add: zeros_def)
  show ?thesis
    by (simp add: update_connected [OF c init_invariant] and_then_def)
      (simp add: IRacingTelemetry_init_def reset_data_def z join_tick_def)
qed

text \<open>
  C7. The renderer draws throttle and brake as they are, steer as \<open>(steer + 1) * 0.5\<close>,
  speed as \<open>speed / 83.33\<close> and gear as \<open>gear / 6.0\<close>, each against distance and only
  when its checkbox is checked; steer -1 is drawn at 0 and steer 1 at 1, speed 83.33 is
  drawn at 1, and a negative gear is drawn below 0.
\<close>

theorem presentation_transforms:
  assumes "window_invariant (telemetry self)"
  shows "\<exists>w. update_plot ir self = Inr w \<and>
     ax_lines (ax w) =
       (if throttle_checkbox self
        then [(distance (telemetry w), throttle (telemetry w), ''lime'')] else []) @
       (if brake_checkbox self
        then [(distance (telemetry w), brake (telemetry w), ''red'')] else []) @
       (if steer_checkbox self
        then [(distance (telemetry w),
               map (\<lambda>v. (v + 1) * 0.5) (steer (telemetry w)), ''cyan'')] else []) @
       (if speed_checkbox self
        then [(distance (telemetry w),
               map (\<lambda>v. v / 83.33) (speed (telemetry w)), ''yellow'')] else []) @
       (if gear_checkbox self
        then [(distance (telemetry w),
               map (\<lambda>v. v / 6.0) (gear (telemetry w)), ''magenta'')] else []) \<and>
     steer_normalized [- 1, 1] = [0, 1] \<and>
     speed_normalized [83.33] = [1] \<and>
     (\<forall>g. g < 0 \<longrightarrow> gear_normalized [of_int g] = [of_int g / 6] \<and> of_int g / 6 < (0::real))"
proof -
  from update_invariant [OF assms, of ir]
  obtain t where t: "update ir (telemetry self) = Inr t" "window_invariant t" by blast
  have a: "steer_normalized [- 1, 1] = [0, 1]" by (simp add: steer_normalized_def)
  have b: "speed_normalized [83.33] = [1]" by (simp add: speed_normalized_def)
  have c: "\<forall>g. g < 0 \<longrightarrow> gear_normalized [of_int g] = [of_int g / 6] \<and> of_int g / 6 < (0::real)"
    by (simp add: gear_normalized_def)
  show ?thesis
    using a b c
    by (simp add: update_plot_result [OF t(2) t(1)]
        steer_normalized_def speed_normalized_def gear_normalized_def)
qed

theorem presentation_transforms_witness:
  "window_invariant (telemetry all_visible) \<and>
   (\<exists>w. update_plot cruise_tick all_visible = Inr w \<and>
     ax_lines (ax w) =
       [(distance (telemetry w), throttle (telemetry w), ''lime''),
        (distance (telemetry w), brake (telemetry w), ''red''),
        (distance (telemetry w), map (\<lambda>v. (v + 1) * 0.5) (steer (telemetry w)), ''cyan''),
        (distance (telemetry w), map (\<lambda>v. v / 83.33) (speed (telemetry w)), ''yellow''),
        (distance (telemetry w), map (\<lambda>v. v / 6.0) (gear (telemetry w)), ''magenta'')]) \<and>
   gear_normalized [of_int (- 1)] = [- 1 / 6]"
proof -
  have c: "throttle_checkbox all_visible" "brake_checkbox all_visible"
    "steer_checkbox all_visible" "speed_checkbox all_visible" "gear_checkbox all_visible"
    by (simp_all add: all_visible_def)
  from presentation_transforms [OF all_visible_invariant, of cruise_tick] c
  have a: "\<exists>w. update_plot cruise_tick all_visible = Inr w \<and>
     ax_lines (ax w) =
       [(distance (telemetry w), throttle (telemetry w), ''lime''),
        (distance (telemetry w), brake (telemetry w), ''red''),
        (distance (telemetry w), map (\<lambda>v. (v + 1) * 0.5) (steer (telemetry w)), ''cyan''),
        (distance (telemetry w), map (\<lambda>v. v / 83.33) (speed (telemetry w)), ''yellow''),
        (distance (telemetry w), map (\<lambda>v. v / 6.0) (gear (telemetry w)), ''magenta'')]"
    and g: "\<forall>g. g < 0 \<longrightarrow> gear_normalized [of_int g] = [of_int g / 6] \<and> of_int g / 6 < (0::real)"
    by auto
  from g have "gear_normalized [of_int (- 1)] = [of_int (- 1) / 6]"
    by (simp del: of_int_minus)
  then have b: "gear_normalized [of_int (- 1)] = [- 1 / 6]" by simp
  from a b all_visible_invariant show ?thesis by blast
qed

text \<open>
  C8. The limits of the x axis are \<open>(0, 300)\<close> when the last distance is at most 150, and
  \<open>(d - 150, d + 150)\<close> for the last distance \<open>d\<close> when it is above 150.
\<close>

theorem x_axis_limits:
  assumes "window_invariant (telemetry self)"
  shows "\<exists>w. update_plot ir self = Inr w \<and>
     update ir (telemetry self) = Inr (telemetry w) \<and>
     (last (distance (telemetry w)) \<le> 150 \<longrightarrow> ax_xlim (ax w) = (0, 300)) \<and>
     (150 < last (distance (telemetry w)) \<longrightarrow>
        ax_xlim (ax w) =
          (last (distance (telemetry w)) - 150, last (distance (telemetry w)) + 150))"
proof -
  from update_invariant [OF assms, of ir]
  obtain t where t: "update ir (telemetry self) = Inr t" "window_invariant t" by blast
  show ?thesis
    by (simp add: update_plot_result [OF t(2) t(1)] t(1))
qed

theorem x_axis_limits_witness:
  "window_invariant (telemetry all_visible) \<and>
   (\<exists>w. update_plot cruise_tick all_visible = Inr w \<and>
      last (distance (telemetry w)) = 200 \<and> ax_xlim (ax w) = (50, 350)) \<and>
   (\<exists>w. update_plot offline_tick all_visible = Inr w \<and>
      last (distance (telemetry w)) = 0 \<and> ax_xlim (ax w) = (0, 300))"
proof -
  from x_axis_limits [OF all_visible_invariant, of cruise_tick]
  obtain w where w: "update_plot cruise_tick all_visible = Inr w"
    "update cruise_tick (telemetry all_visible) = Inr (telemetry w)"
    "150 < last (distance (telemetry w)) \<longrightarrow>
        ax_xlim (ax w) =
          (last (distance (telemetry w)) - 150, last (distance (telemetry w)) + 150)"
    by blast
  from w(2) have "update cruise_tick cruising = Inr (telemetry w)"
    by (simp add: all_visible_def)
  then have "last (distance (telemetry w)) = 200"
    by (rule last_distance_after_cruise)
  with w(1) w(3) have a: "\<exists>w. update_plot cruise_tick all_visible = Inr w \<and>
      last (distance (telemetry w)) = 200 \<and> ax_xlim (ax w) = (50, 350)"
    by auto
  from x_axis_limits [OF all_visible_invariant, of offline_tick]
  obtain v where v: "update_plot offline_tick all_visible = Inr v"
    "update offline_tick (telemetry all_visible) = Inr (telemetry v)"
    "last (distance (telemetry v)) \<le> 150 \<longrightarrow> ax_xlim (ax v) = (0, 300)"
    by blast
  have "\<not> is_connected offline_tick" by (simp add: offline_tick_def)
  with v(2) have "telemetry v = reset_data cruising"
    by (simp add: all_visible_def update_disconnected)
  then have "last (distance (telemetry v)) = 0"
    by (simp add: reset_data_def cruising_def zeros_def)
  with v(1) v(3) have b: "\<exists>w. update_plot offline_tick all_visible = Inr w \<and>
      last (distance (telemetry w)) = 0 \<and> ax_xlim (ax w) = (0, 300)"
    by auto
  from a b all_visible_invariant show ?thesis by blast
qed

text \<open>
  C9. Two ticks that start from the same windows and read the same telemetry leave the
  same windows, whatever the five checkboxes say: the windows are those \<open>update\<close>
  returns.
\<close>

theorem toggles_do_not_influence_sampling:
  assumes "window_invariant (telemetry w1)" and "telemetry w2 = telemetry w1"
  shows "\<exists>v1 v2. update_plot ir w1 = Inr v1 \<and> update_plot ir w2 = Inr v2 \<and>
     telemetry v1 = telemetry v2 \<and> update ir (telemetry w1) = Inr (telemetry v1)"
proof -
  from update_invariant [OF assms(1), of ir]
  obtain t where t: "update ir (telemetry w1) = Inr t" "window_invariant t" by blast
  from t(1) assms(2) have t2: "update ir (telemetry w2) = Inr t" by simp
  show ?thesis
    by (simp add: update_plot_result [OF t(2) t(1)] update_plot_result [OF t(2) t2] t(1))
qed

theorem toggles_do_not_influence_sampling_witness:
  "window_invariant (telemetry all_visible) \<and>
   telemetry none_visible = telemetry all_visible \<and>
   throttle_checkbox all_visible \<and> \<not> throttle_checkbox none_visible \<and>
   (\<exists>v1 v2. update_plot cruise_tick all_visible = Inr v1 \<and>
      update_plot cruise_tick none_visible = Inr v2 \<and>
      telemetry v1 = telemetry v2 \<and> last (distance (telemetry v1)) = 200)"
proof -
  have e: "telemetry none_visible = telemetry all_visible"
    by (simp add: none_visible_def all_visible_def)
  have c: "throttle_checkbox all_visible" "\<not> throttle_checkbox none_visible"
    by (simp_all add: none_visible_def all_visible_def)
  from toggles_do_not_influence_sampling [OF all_visible_invariant e, of cruise_tick]
  obtain v1 v2 where v: "update_plot cruise_tick all_visible = Inr v1"
    "update_plot cruise_tick none_visible = Inr v2" "telemetry v1 = telemetry v2"
    "update cruise_tick (telemetry all_visible) = Inr (telemetry v1)"
    by blast
  from v(4) have "update cruise_tick cruising = Inr (telemetry v1)"
    by (simp add: all_visible_def)
  then have "last (distance (telemetry v1)) = 200"
    by (rule last_distance_after_cruise)
  with v(1,2,3) e c all_visible_invariant show ?thesis by blast
qed

text \<open>
  C10. On a connected update whose session time equals the time stored for the previous
  sample, the distance window drops its oldest element and the element appended is the
  previous distance, for every speed, positive speeds included; the time window takes
  the time read in the same way. So the newest distance equals the one before it, which
  sits at index 198 after the update.
\<close>

theorem zero_time_delta_keeps_distance:
  assumes "window_invariant self" and "is_connected ir"
    and "SessionTime ir = last (time self)"
  shows "\<exists>t. update ir self = Inr t \<and>
     distance t = tl (distance self) @ [last (distance self)] \<and>
     time t = tl (time self) @ [SessionTime ir] \<and>
     speed t = tl (speed self) @ [Speed ir] \<and>
     last (distance t) = last (distance self) \<and>
     distance t ! 198 = last (distance self) \<and>
     distance t ! 199 = distance t ! 198"
proof -
  from assms(1) have len: "length (distance self) = 200"
    by (simp add: window_invariant_def)
  have p: "(tl (distance self) @ [last (distance self)]) ! 198 = last (distance self)"
    by (rule previous_sample [OF len])
  have n: "(tl (distance self) @ [last (distance self)]) ! 199 = last (distance self)"
    using len nth_tl_snoc_last [of "distance self" 199 "last (distance self)"] by simp
  show ?thesis
    using assms(3) p n by (simp add: update_connected [OF assms(2) assms(1)])
qed

theorem zero_time_delta_keeps_distance_witness:
  "window_invariant cruising \<and> is_connected repeated_tick \<and>
   SessionTime repeated_tick = last (time cruising) \<and> 0 < Speed repeated_tick \<and>
   (\<exists>t. update repeated_tick cruising = Inr t \<and>
      distance t = tl (distance cruising) @ [199] \<and>
      distance t \<noteq> distance cruising \<and>
      last (distance t) = 199 \<and> distance t ! 198 = 199)"
proof -
  have c: "is_connected repeated_tick" and p: "0 < Speed repeated_tick"
    by (simp_all add: repeated_tick_def)
  have e: "SessionTime repeated_tick = last (time cruising)"
    by (simp add: repeated_tick_def last_time_cruising)
  from zero_time_delta_keeps_distance [OF cruising_invariant c e]
  obtain t where t: "update repeated_tick cruising = Inr t"
    "distance t = tl (distance cruising) @ [last (distance cruising)]"
    "last (distance t) = last (distance cruising)"
    "distance t ! 198 = last (distance cruising)"
    by blast
  have "hd (distance cruising) = 0" by (simp add: cruising_def upt_conv_Cons)
  moreover have "hd (tl (distance cruising) @ [199]) = 1"
    by (simp add: cruising_def upt_conv_Cons)
  ultimately have ne: "tl (distance cruising) @ [199] \<noteq> distance cruising"
    by (metis zero_neq_one)
  from t ne c p e cruising_invariant show ?thesis
    by (auto simp: last_distance_cruising)
qed

end
